theory Spec2Isabelle
  imports Complex_Main "HOL-Library.Sublist" "HOL-Library.Multiset"
begin

section \<open>Characters, case folding and whitespace-delimited tokens\<close>

text \<open>
  \<^verbatim>\<open>std::string\<close> is a sequence of bytes, modelled as \<open>string\<close> (a list of 8-bit
  \<open>char\<close>). \<^verbatim>\<open>::isspace\<close>, \<^verbatim>\<open>::tolower\<close> and the stream extraction
  \<^verbatim>\<open>iss >> word\<close> are taken in the classic "C" locale, the one a program has unless it
  calls \<^verbatim>\<open>setlocale\<close>, which this one never does.
\<close>

definition isspace :: "char \<Rightarrow> bool" where
  "isspace c = (c = CHR '' '' \<or> c = CHR 0x09 \<or> c = CHR 0x0A \<or> c = CHR 0x0B
                \<or> c = CHR 0x0C \<or> c = CHR 0x0D)"

definition upper_letters :: string where
  "upper_letters = ''ABCDEFGHIJKLMNOPQRSTUVWXYZ''"

definition lower_letters :: string where
  "lower_letters = ''abcdefghijklmnopqrstuvwxyz''"

definition tolower :: "char \<Rightarrow> char" where
  "tolower c = (case map_of (zip upper_letters lower_letters) c of Some l \<Rightarrow> l | None \<Rightarrow> c)"

definition is_digit :: "char \<Rightarrow> bool" where
  "is_digit c = (c \<in> set ''0123456789'')"

definition digit_value :: "char \<Rightarrow> nat" where
  "digit_value c = (case map_of (zip ''0123456789'' [0, 1, 2, 3, 4, 5, 6, 7, 8, 9]) c of
                      Some d \<Rightarrow> d | None \<Rightarrow> 0)"

text \<open>
  \<^verbatim>\<open>iss >> word\<close>: skip leading whitespace, then take characters up to the next
  whitespace. The pair is the extracted word and the rest of the stream; an empty word
  means the extraction failed (end of stream), and then the target string is empty.
\<close>

definition extract_word :: "string \<Rightarrow> string \<times> string" where
  "extract_word s = (let t = dropWhile isspace s in
     (takeWhile (\<lambda>c. \<not> isspace c) t, dropWhile (\<lambda>c. \<not> isspace c) t))"

text \<open>The loop \<^verbatim>\<open>while (iss >> arg) args.push_back(arg);\<close>\<close>

function extract_all :: "string \<Rightarrow> string list" where
  "extract_all s = (case extract_word s of (w, rest) \<Rightarrow>
     if w = [] then [] else w # extract_all rest)"
  by pat_completeness auto
termination
  apply (relation "measure length")
   apply simp
  subgoal for s w rest
    using length_dropWhile_le [of isspace s]
      trans [OF arg_cong [OF takeWhile_dropWhile_id [symmetric], of length] length_append,
             of "dropWhile isspace s" "\<lambda>c. \<not> isspace c"]
    by (clarsimp simp: extract_word_def Let_def neq_Nil_conv)
  done

declare extract_all.simps [simp del]

text \<open>\<^verbatim>\<open>std::less<std::string>\<close>: lexicographic on the bytes, compared as unsigned.\<close>

fun string_less :: "string \<Rightarrow> string \<Rightarrow> bool" where
  "string_less [] [] = False"
| "string_less [] (y # ys) = True"
| "string_less (x # xs) [] = False"
| "string_less (x # xs) (y # ys) =
     ((of_char x :: nat) < of_char y \<or> (x = y \<and> string_less xs ys))"

section \<open>TierValidator\<close>

text \<open>
  \<^verbatim>\<open>std::map<std::string, std::vector<std::string>> tier_defaults_\<close>: the entries in
  ascending key order, which is the order the range-for of \<^verbatim>\<open>get_tier\<close> visits them in.
\<close>

type_synonym tier_table = "(string \<times> string list) list"

text \<open>\<^verbatim>\<open>tier_defaults_[tier] = commands\<close>: replace the entry or insert it in key order.\<close>

fun map_assign :: "string \<Rightarrow> string list \<Rightarrow> tier_table \<Rightarrow> tier_table" where
  "map_assign k v [] = [(k, v)]"
| "map_assign k v ((k', v') # m) =
     (if k = k' then (k, v) # m
      else if string_less k k' then (k, v) # (k', v') # m
      else (k', v') # map_assign k v m)"

text \<open>
  Construction of a \<^verbatim>\<open>std::map\<close> from an initializer list: the entries are inserted
  one after the other, and an entry whose key is already present is dropped.
\<close>

fun map_insert :: "string \<Rightarrow> string list \<Rightarrow> tier_table \<Rightarrow> tier_table" where
  "map_insert k v [] = [(k, v)]"
| "map_insert k v ((k', v') # m) =
     (if k = k' then (k', v') # m
      else if string_less k k' then (k, v) # (k', v') # m
      else (k', v') # map_insert k v m)"

definition map_of_initializer :: "(string \<times> string list) list \<Rightarrow> tier_table" where
  "map_of_initializer kvs = foldl (\<lambda>m (k, v). map_insert k v m) [] kvs"

definition load_hardcoded_defaults :: tier_table where
  "load_hardcoded_defaults = map_of_initializer
     [(''1'', [''ls'', ''cd'', ''clear'', ''cls'', ''pwd'', ''echo'', ''cat'', ''type'',
               ''Get-ChildItem'', ''Set-Location'', ''Get-Location'']),
      (''2'', [''grep'', ''Select-String'', ''head'', ''tail'', ''sort'', ''uniq'']),
      (''2.5'', [''find'', ''sed'', ''awk'', ''Where-Object'', ''ForEach-Object'']),
      (''3'', [''cp'', ''mv'', ''git'', ''npm'', ''pip'', ''reset'',
               ''Copy-Item'', ''Move-Item'', ''New-Item'', ''Remove-Item'']),
      (''4'', [''rm'', ''del'', ''format'', ''dd'', ''Remove-Item'', ''Format-Volume'',
               ''Clear-Disk''])]"

subsection \<open>The rule file and its regular expressions\<close>

text \<open>
  \<^verbatim>\<open>parse_json\<close> searches the file content for the regular expression
  \<^verbatim>\<open>"(\d+(?:\.\d+)?)":\s*\[(.*?)\]"\<close> (ECMAScript grammar; the closing quote after
  \<^verbatim>\<open>\]\<close> is in the source). \<open>match_tier_here\<close> is the match attempt at the head of
  the string: it gives group 1, group 2 and the suffix after the match. Every greedy
  piece is followed by a character outside its own class, and the lazy \<^verbatim>\<open>.*?\<close> stops
  at the first \<^verbatim>\<open>]"\<close>, so backtracking never finds a second way to match; \<^verbatim>\<open>.\<close>
  matches every character but the line terminators \<^verbatim>\<open>\n\<close> and \<^verbatim>\<open>\r\<close>.
\<close>

fun lazy_to_close :: "string \<Rightarrow> (string \<times> string) option" where
  "lazy_to_close [] = None"
| "lazy_to_close (c # cs) =
     (if c = CHR '']'' \<and> take 1 cs = [CHR 0x22] then Some ([], drop 1 cs)
      else if c = CHR 0x0A \<or> c = CHR 0x0D then None
      else (case lazy_to_close cs of None \<Rightarrow> None | Some (g, sfx) \<Rightarrow> Some (c # g, sfx)))"

definition match_number :: "string \<Rightarrow> (string \<times> string) option" where
  "match_number s = (let ip = takeWhile is_digit s; r = dropWhile is_digit s in
     if ip = [] then None
     else if take 1 r = ''.'' then
       (let fp = takeWhile is_digit (drop 1 r) in
          if fp = [] then None else Some (ip @ ''.'' @ fp, dropWhile is_digit (drop 1 r)))
     else Some (ip, r))"

definition match_tier_here :: "string \<Rightarrow> (string \<times> string \<times> string) option" where
  "match_tier_here s =
     (if take 1 s \<noteq> [CHR 0x22] then None
      else case match_number (drop 1 s) of None \<Rightarrow> None
      | Some (tier, r) \<Rightarrow>
          if take 2 r \<noteq> [CHR 0x22, CHR '':''] then None
          else (let r' = dropWhile isspace (drop 2 r) in
                  if take 1 r' \<noteq> ''['' then None
                  else case lazy_to_close (drop 1 r') of None \<Rightarrow> None
                       | Some (commands_str, sfx) \<Rightarrow> Some (tier, commands_str, sfx)))"

text \<open>\<^verbatim>\<open>std::regex_search\<close>: the match at the leftmost position that has one.\<close>

fun search_tier :: "string \<Rightarrow> (string \<times> string \<times> string) option" where
  "search_tier [] = match_tier_here []"
| "search_tier (c # cs) =
     (case match_tier_here (c # cs) of Some m \<Rightarrow> Some m | None \<Rightarrow> search_tier cs)"

text \<open>The inner expression \<^verbatim>\<open>"([^"]+)"\<close>: group 1 and the suffix after the match.\<close>

definition match_cmd_here :: "string \<Rightarrow> (string \<times> string) option" where
  "match_cmd_here s =
     (if take 1 s \<noteq> [CHR 0x22] then None
      else (let body = takeWhile (\<lambda>c. c \<noteq> CHR 0x22) (drop 1 s);
                r = dropWhile (\<lambda>c. c \<noteq> CHR 0x22) (drop 1 s) in
              if body = [] \<or> take 1 r \<noteq> [CHR 0x22] then None else Some (body, drop 1 r)))"

fun search_cmd :: "string \<Rightarrow> (string \<times> string) option" where
  "search_cmd [] = match_cmd_here []"
| "search_cmd (c # cs) =
     (case match_cmd_here (c # cs) of Some m \<Rightarrow> Some m | None \<Rightarrow> search_cmd cs)"

lemma lazy_to_close_shorter:
  "lazy_to_close s = Some (g, sfx) \<Longrightarrow> length sfx < length s"
proof (induction s arbitrary: g)
  case Nil
  then show ?case by simp
next
  case (Cons c cs)
  then show ?case by (fastforce split: if_splits option.splits)
qed

lemma match_tier_here_shorter:
  "match_tier_here s = Some (tier, commands_str, sfx) \<Longrightarrow> length sfx < length s"
proof -
  assume m: "match_tier_here s = Some (tier, commands_str, sfx)"
  then obtain r where n: "match_number (drop 1 s) = Some (tier, r)"
    and c: "lazy_to_close (drop 1 (dropWhile isspace (drop 2 r))) = Some (commands_str, sfx)"
    by (auto simp: match_tier_here_def Let_def split: if_splits option.splits)
  from n have "length r \<le> length (drop 1 s)"
    using length_dropWhile_le [of is_digit "drop 1 s"]
      length_dropWhile_le [of is_digit "drop 1 (dropWhile is_digit (drop 1 s))"]
    by (auto simp: match_number_def Let_def split: if_splits)
  moreover have "length (drop 1 (dropWhile isspace (drop 2 r))) \<le> length r"
    using length_dropWhile_le [of isspace "drop 2 r"] by simp
  moreover note lazy_to_close_shorter [OF c]
  ultimately show ?thesis by simp
qed

lemma search_tier_shorter:
  "search_tier s = Some (tier, commands_str, sfx) \<Longrightarrow> length sfx < length s"
proof (induction s)
  case Nil
  then show ?case by (simp add: match_tier_here_def)
next
  case (Cons c cs)
  show ?case
  proof (cases "match_tier_here (c # cs)")
    case None
    with Cons show ?thesis by simp
  next
    case (Some m)
    with Cons.prems show ?thesis by (auto dest: match_tier_here_shorter)
  qed
qed

lemma search_cmd_shorter:
  "search_cmd s = Some (cmd, sfx) \<Longrightarrow> length sfx < length s"
proof (induction s)
  case Nil
  then show ?case by (simp add: match_cmd_here_def)
next
  case (Cons c cs)
  show ?case
  proof (cases "match_cmd_here (c # cs)")
    case None
    with Cons show ?thesis by simp
  next
    case (Some m)
    with Cons.prems have "sfx = drop 1 (dropWhile (\<lambda>c. c \<noteq> CHR 0x22) cs)"
      by (auto simp: match_cmd_here_def Let_def split: if_splits)
    then show ?thesis
      using length_dropWhile_le [of "\<lambda>c. c \<noteq> CHR 0x22" cs] by simp
  qed
qed

text \<open>The inner loop of \<^verbatim>\<open>parse_json\<close>: every quoted alias of one bracketed list.\<close>

function collect_commands :: "string \<Rightarrow> string list" where
  "collect_commands s = (case search_cmd s of None \<Rightarrow> []
     | Some (cmd, sfx) \<Rightarrow> cmd # collect_commands sfx)"
  by pat_completeness auto
termination
  by (relation "measure length") (auto dest: search_cmd_shorter)

declare collect_commands.simps [simp del]

text \<open>The outer loop of \<^verbatim>\<open>parse_json\<close>, from \<^verbatim>\<open>search_start\<close> on.\<close>

function parse_json :: "string \<Rightarrow> tier_table \<Rightarrow> tier_table" where
  "parse_json json_content m = (case search_tier json_content of None \<Rightarrow> m
     | Some (tier, commands_str, sfx) \<Rightarrow>
         parse_json sfx (map_assign tier (collect_commands commands_str) m))"
  by pat_completeness auto
termination
  by (relation "measure (\<lambda>(s, m). length s)") (auto dest: search_tier_shorter)

declare parse_json.simps [simp del]

text \<open>
  The rule file \<^verbatim>\<open>../isaac/data/tier_defaults.json\<close> is \<open>None\<close> when it cannot be
  opened and \<open>Some content\<close> otherwise. \<^verbatim>\<open>load_from_file\<close> returns \<^verbatim>\<open>true\<close> as
  soon as the file opens, whatever \<^verbatim>\<open>parse_json\<close> found in it; its
  \<^verbatim>\<open>catch (...)\<close> answers exceptions of the regex engine and of allocation, which the
  model does not have.
\<close>

definition load_from_file :: "string option \<Rightarrow> tier_table \<Rightarrow> bool \<times> tier_table" where
  "load_from_file file m = (case file of None \<Rightarrow> (False, m)
     | Some json_content \<Rightarrow> (True, parse_json json_content m))"

definition load_tier_defaults :: "string option \<Rightarrow> tier_table \<Rightarrow> tier_table" where
  "load_tier_defaults file m = (case load_from_file file m of
     (True, m') \<Rightarrow> m' | (False, m') \<Rightarrow> load_hardcoded_defaults)"

text \<open>The constructor: an empty map, then \<^verbatim>\<open>load_tier_defaults()\<close>.\<close>

definition TierValidator_new :: "string option \<Rightarrow> tier_table" where
  "TierValidator_new file = load_tier_defaults file []"

subsection \<open>Classification\<close>

text \<open>
  A tier is a \<^verbatim>\<open>float\<close>; the model takes it as a rational number. \<^verbatim>\<open>std::stof\<close> is
  modelled on the tier labels, decimal numerals \<^verbatim>\<open>digits\<close> or \<^verbatim>\<open>digits.digits\<close>,
  the only keys that \<^verbatim>\<open>load_hardcoded_defaults\<close> and \<^verbatim>\<open>parse_json\<close> store, and gives
  their exact value. The labels of the built-in table (1, 2, 2.5, 3, 4) are binary32
  numbers, so nothing is rounded there; the rounding of other labels to binary32 and the
  \<^verbatim>\<open>std::out_of_range\<close> of a label beyond the range of \<^verbatim>\<open>float\<close> are outside the model.
\<close>

definition stof :: "string \<Rightarrow> rat" where
  "stof s = (let ip = takeWhile is_digit s; r = dropWhile is_digit s;
                 fp = (if take 1 r = ''.'' then takeWhile is_digit (drop 1 r) else []) in
     of_nat (foldl (\<lambda>a c. 10 * a + digit_value c) 0 ip)
       + foldr (\<lambda>c a. (of_nat (digit_value c) + a) / 10) fp 0)"

text \<open>The inner loop of \<^verbatim>\<open>get_tier\<close>: does some alias, lower-cased, equal the base command?\<close>

primrec alias_matches :: "string list \<Rightarrow> string \<Rightarrow> bool" where
  "alias_matches [] base_cmd = False"
| "alias_matches (cmd # commands) base_cmd =
     (if base_cmd = map tolower cmd then True else alias_matches commands base_cmd)"

text \<open>The outer loop: the first tier, in key order, with a matching alias; 3 when none has.\<close>

primrec scan_tiers :: "tier_table \<Rightarrow> string \<Rightarrow> rat" where
  "scan_tiers [] base_cmd = 3"
| "scan_tiers (entry # rest) base_cmd =
     (if alias_matches (snd entry) base_cmd then stof (fst entry)
      else scan_tiers rest base_cmd)"

definition base_command :: "string \<Rightarrow> string" where
  "base_command command = map tolower (fst (extract_word command))"

definition get_tier :: "tier_table \<Rightarrow> string \<Rightarrow> rat" where
  "get_tier tier_defaults command =
     (if command = [] \<or> list_all isspace command then 3
      else scan_tiers tier_defaults (base_command command))"

definition is_safe :: "tier_table \<Rightarrow> string \<Rightarrow> bool" where
  "is_safe tier_defaults command = (get_tier tier_defaults command \<le> 2)"

definition requires_confirmation :: "tier_table \<Rightarrow> string \<Rightarrow> bool" where
  "requires_confirmation tier_defaults command = (get_tier tier_defaults command = 5 / 2)"

definition requires_validation :: "tier_table \<Rightarrow> string \<Rightarrow> bool" where
  "requires_validation tier_defaults command = (get_tier tier_defaults command \<ge> 3)"

section \<open>Results, effects and the shell adapter\<close>

record CommandResult =
  success :: bool
  "output" :: string
  exit_code :: int

text \<open>\<^verbatim>\<open>std::out_of_range\<close>, which \<^verbatim>\<open>std::string::substr\<close> throws.\<close>

datatype exn = out_of_range

text \<open>
  What the collaborators hold between calls: the state of the operating system as
  \<^verbatim>\<open>popen\<close> sees and changes it, the commands that \<^verbatim>\<open>ShellAdapter::execute\<close> was
  called with (oldest first; kept by the model to count invocations), and the lines
  written to \<^verbatim>\<open>std::cout\<close>.
\<close>

record 'w Env =
  world :: 'w
  shell_calls :: "string list"
  console :: "string list"

text \<open>
  \<^verbatim>\<open>popen\<close>, reading the pipe to its end, and \<^verbatim>\<open>WEXITSTATUS(pclose(..))\<close> are the
  operating system's: a parameter that gives \<open>None\<close> when no pipe could be opened and
  the output with the exit status otherwise. The adapter is the one of the build without
  \<^verbatim>\<open>_WIN32\<close>; \<^verbatim>\<open>execute_unix\<close> takes the timeout and does not use it.
\<close>

type_synonym 'w popen = "string \<Rightarrow> 'w \<Rightarrow> (string \<times> int) option \<times> 'w"

definition execute_unix :: "'w popen \<Rightarrow> string \<Rightarrow> int \<Rightarrow> 'w \<Rightarrow> CommandResult \<times> 'w" where
  "execute_unix popen command timeout_seconds w = (case popen command w of
       (None, w') \<Rightarrow>
         (\<lparr>success = False, output = ''Isaac > Failed to execute command'', exit_code = - 1\<rparr>, w')
     | (Some (result, code), w') \<Rightarrow>
         (\<lparr>success = (code = 0), output = result, exit_code = code\<rparr>, w'))"

definition execute_with_timeout ::
  "'w popen \<Rightarrow> string \<Rightarrow> int \<Rightarrow> 'w \<Rightarrow> CommandResult \<times> 'w" where
  "execute_with_timeout popen command timeout_seconds w =
     execute_unix popen command timeout_seconds w"

definition ShellAdapter_execute ::
  "'w popen \<Rightarrow> string \<Rightarrow> 'w Env \<Rightarrow> CommandResult \<times> 'w Env" where
  "ShellAdapter_execute popen command env =
     (case execute_with_timeout popen command 30 (world env) of
        (result, w') \<Rightarrow>
          (result, env\<lparr>world := w', shell_calls := shell_calls env @ [command]\<rparr>))"

section \<open>Strategies\<close>

datatype Strategy =
    PipeStrategy | CdStrategy | ForceExecutionStrategy | ExitQuitStrategy
  | ConfigStrategy | DeviceRoutingStrategy | ExitBlockerStrategy | TaskModeStrategy
  | AgenticModeStrategy | MetaCommandStrategy | NaturalLanguageStrategy
  | UnixAliasStrategy | TierExecutionStrategy

fun get_priority :: "Strategy \<Rightarrow> int" where
  "get_priority PipeStrategy = 10"
| "get_priority CdStrategy = 15"
| "get_priority ForceExecutionStrategy = 20"
| "get_priority ExitQuitStrategy = 25"
| "get_priority ConfigStrategy = 35"
| "get_priority DeviceRoutingStrategy = 40"
| "get_priority ExitBlockerStrategy = 40"
| "get_priority TaskModeStrategy = 45"
| "get_priority AgenticModeStrategy = 48"
| "get_priority MetaCommandStrategy = 50"
| "get_priority NaturalLanguageStrategy = 55"
| "get_priority UnixAliasStrategy = 60"
| "get_priority TierExecutionStrategy = 100"

text \<open>\<^verbatim>\<open>input.find(p) == 0\<close> is \<open>prefix p input\<close>.\<close>

fun can_handle :: "Strategy \<Rightarrow> string \<Rightarrow> bool" where
  "can_handle PipeStrategy input = (CHR ''|'' \<in> set input)"
| "can_handle CdStrategy input = (prefix ''cd '' input \<or> input = ''cd'')"
| "can_handle ForceExecutionStrategy input = (input \<noteq> [] \<and> hd input = CHR ''!'')"
| "can_handle ExitQuitStrategy input = (let lower = map tolower input in
     lower = ''exit'' \<or> lower = ''quit'' \<or> lower = ''q''
     \<or> lower = ''/exit'' \<or> lower = ''/quit'' \<or> lower = ''/q'')"
| "can_handle ConfigStrategy input = prefix ''/config'' input"
| "can_handle DeviceRoutingStrategy input = (input \<noteq> [] \<and> hd input = CHR ''!'')"
| "can_handle ExitBlockerStrategy input = False"
| "can_handle TaskModeStrategy input = prefix ''isaac task:'' input"
| "can_handle AgenticModeStrategy input =
     (prefix ''isaac agent:'' input \<or> prefix ''isaac agentic:'' input)"
| "can_handle MetaCommandStrategy input = (input \<noteq> [] \<and> hd input = CHR ''/'')"
| "can_handle NaturalLanguageStrategy input = prefix ''isaac'' (map tolower input)"
| "can_handle UnixAliasStrategy input = False"
| "can_handle TierExecutionStrategy input = True"

text \<open>
  \<^verbatim>\<open>get_help\<close> of a strategy; \<^verbatim>\<open>ExitBlockerStrategy\<close> and \<^verbatim>\<open>UnixAliasStrategy\<close> do
  not override the base class, whose help text is empty.
\<close>

fun strategy_help :: "Strategy \<Rightarrow> string" where
  "strategy_help PipeStrategy = ''Pipe commands: cmd1 | cmd2''"
| "strategy_help CdStrategy = ''Change directory: cd <path>''"
| "strategy_help ForceExecutionStrategy = ''Force execute: !command''"
| "strategy_help ExitQuitStrategy = ''Exit shell: exit, quit, q''"
| "strategy_help ConfigStrategy = ''Configuration commands: /config set/get/list''"
| "strategy_help DeviceRoutingStrategy = ''Device routing: !device command''"
| "strategy_help ExitBlockerStrategy = []"
| "strategy_help TaskModeStrategy = ''Task mode: isaac task: <description>''"
| "strategy_help AgenticModeStrategy = ''Agentic mode: isaac agent: <query>''"
| "strategy_help MetaCommandStrategy = ''Meta commands: /help, /status, etc.''"
| "strategy_help NaturalLanguageStrategy = ''AI queries: isaac <question>''"
| "strategy_help UnixAliasStrategy = []"
| "strategy_help TierExecutionStrategy = ''Shell commands with safety validation''"

section \<open>The router's state\<close>

text \<open>
  The members \<^verbatim>\<open>strategies_\<close>, \<^verbatim>\<open>strategies_loaded_\<close> and \<^verbatim>\<open>validator_\<close>.
  \<open>loads\<close> is not a member of the class: it counts the runs of \<^verbatim>\<open>load_strategies\<close>,
  so that "loaded once" can be stated. \<^verbatim>\<open>session_\<close> and \<^verbatim>\<open>shell_\<close> are the
  collaborators; the shell's state is the \<open>Env\<close>.
\<close>

record CommandRouter =
  strategies :: "Strategy list"
  strategies_loaded :: bool
  router_validator :: tier_table
  loads :: nat

record StrategyContext =
  router :: CommandRouter
  validator :: tier_table

definition help_header :: string where
  "help_header = ''Isaac Command Router - Available command types:\<newline>''"

text \<open>The bullet is the seven bytes the source file has between the two blanks.\<close>

definition help_bullet :: string where
  "help_bullet = ''  '' @ [CHR 0xC3, CHR 0xA2, CHR 0xE2, CHR 0x82, CHR 0xAC, CHR 0xC2, CHR 0xA2]
                   @ '' ''"

definition CommandRouter_get_help :: "CommandRouter \<Rightarrow> string" where
  "CommandRouter_get_help r = foldl
     (\<lambda>help strategy.
        (let strategy_help = strategy_help strategy in
           if strategy_help \<noteq> [] then help @ help_bullet @ strategy_help @ ''\<newline>''
           else help))
     help_header (strategies r)"

section \<open>What each strategy executes\<close>

text \<open>
  \<^verbatim>\<open>s.substr(pos)\<close> throws when \<open>pos\<close> is beyond the end; \<^verbatim>\<open>s.find(c, pos)\<close> gives the
  index of the first \<open>c\<close> at or after \<open>pos\<close>, and \<open>None\<close> stands for \<^verbatim>\<open>npos\<close>.
\<close>

definition substr :: "string \<Rightarrow> nat \<Rightarrow> exn + string" where
  "substr s pos = (if pos > length s then Inl out_of_range else Inr (drop pos s))"

definition find_char :: "string \<Rightarrow> char \<Rightarrow> nat \<Rightarrow> nat option" where
  "find_char s c pos = (if c \<in> set (drop pos s)
     then Some (pos + length (takeWhile (\<lambda>x. x \<noteq> c) (drop pos s))) else None)"

type_synonym 'w outcome = "(exn + CommandResult) \<times> 'w Env"

definition via_shell :: "'w popen \<Rightarrow> string \<Rightarrow> 'w Env \<Rightarrow> 'w outcome" where
  "via_shell popen command env =
     (case ShellAdapter_execute popen command env of (result, env') \<Rightarrow> (Inr result, env'))"

definition PipeStrategy_execute ::
  "'w popen \<Rightarrow> string \<Rightarrow> StrategyContext \<Rightarrow> 'w Env \<Rightarrow> 'w outcome" where
  "PipeStrategy_execute popen input ctx env = via_shell popen input env"

definition CdStrategy_execute ::
  "'w popen \<Rightarrow> string \<Rightarrow> StrategyContext \<Rightarrow> 'w Env \<Rightarrow> 'w outcome" where
  "CdStrategy_execute popen input ctx env =
     (case extract_word input of (cmd, rest) \<Rightarrow>
        (let dir = (if cmd = [] then [] else fst (extract_word rest));
             dir = (if dir = [] then ''~'' else dir)
         in via_shell popen (''cd '' @ dir) env))"

definition ForceExecutionStrategy_execute ::
  "'w popen \<Rightarrow> string \<Rightarrow> StrategyContext \<Rightarrow> 'w Env \<Rightarrow> 'w outcome" where
  "ForceExecutionStrategy_execute popen input ctx env =
     (case substr input 1 of Inl e \<Rightarrow> (Inl e, env)
      | Inr command \<Rightarrow> via_shell popen (dropWhile isspace command) env)"

definition ExitQuitStrategy_execute ::
  "'w popen \<Rightarrow> string \<Rightarrow> StrategyContext \<Rightarrow> 'w Env \<Rightarrow> 'w outcome" where
  "ExitQuitStrategy_execute popen input ctx env =
     (Inr \<lparr>success = True, output = ''Isaac > Goodbye!'', exit_code = 0\<rparr>, env)"

definition MetaCommandStrategy_execute ::
  "'w popen \<Rightarrow> string \<Rightarrow> StrategyContext \<Rightarrow> 'w Env \<Rightarrow> 'w outcome" where
  "MetaCommandStrategy_execute popen input ctx env =
     (case substr input 1 of Inl e \<Rightarrow> (Inl e, env)
      | Inr command \<Rightarrow>
          (let command = map tolower (dropWhile isspace command) in
             if command = ''help'' then
               (Inr \<lparr>success = True, output = CommandRouter_get_help (router ctx),
                     exit_code = 0\<rparr>, env)
             else if command = ''status'' then
               (Inr \<lparr>success = True, output = ''Isaac > System status: C++ core active'',
                     exit_code = 0\<rparr>, env)
             else
               (Inr \<lparr>success = False, output = ''Isaac > Unknown meta command: '' @ command,
                     exit_code = - 1\<rparr>, env)))"

definition NaturalLanguageStrategy_execute ::
  "'w popen \<Rightarrow> string \<Rightarrow> StrategyContext \<Rightarrow> 'w Env \<Rightarrow> 'w outcome" where
  "NaturalLanguageStrategy_execute popen input ctx env =
     (case substr input 5 of Inl e \<Rightarrow> (Inl e, env)
      | Inr query \<Rightarrow>
          (Inr \<lparr>success = True,
                output = ''Isaac > AI query: '' @ dropWhile isspace query @ '' (C++ processing)'',
                exit_code = 0\<rparr>, env))"

definition tier4_blocked :: CommandResult where
  "tier4_blocked =
     \<lparr>success = False, output = ''Isaac > Command blocked (Tier 4 - lockdown)'', exit_code = - 1\<rparr>"

definition tier3_warning :: string where
  "tier3_warning = ''Isaac > Warning: Tier 3 command executed\<newline>''"

definition tier25_notice :: string where
  "tier25_notice = ''Isaac > Confirmation required for Tier 2.5 command\<newline>''"

definition TierExecutionStrategy_execute ::
  "'w popen \<Rightarrow> string \<Rightarrow> StrategyContext \<Rightarrow> 'w Env \<Rightarrow> 'w outcome" where
  "TierExecutionStrategy_execute popen input ctx env =
     (let tier = get_tier (validator ctx) input in
        if tier \<ge> 4 then (Inr tier4_blocked, env)
        else if tier \<ge> 3 then
          (case ShellAdapter_execute popen input env of (result, env') \<Rightarrow>
             (Inr (result\<lparr>output := tier3_warning @ output result\<rparr>), env'))
        else if tier = 5 / 2 then
          (case ShellAdapter_execute popen input env of (result, env') \<Rightarrow>
             (Inr (result\<lparr>output := tier25_notice @ output result\<rparr>), env'))
        else via_shell popen input env)"

definition config_overview :: string where
  "config_overview = ''Isaac > Configuration overview\<newline>Available commands:\<newline>''
     @ ''  /config set <key> <value>\<newline>  /config get <key>\<newline>  /config list\<newline>''
     @ ''  /config status\<newline>\<newline>C++ ConfigStrategy implementation active''"

definition config_set_note :: string where
  "config_set_note = ''\<newline>Note: Full persistence requires Python config integration''"

definition config_unknown :: string where
  "config_unknown = ''Isaac > Unknown config command. Try: /config set/get/list/status''
     @ ''\<newline>\<newline>C++ ConfigStrategy: Basic implementation active''"

text \<open>
  The argument vector of \<^verbatim>\<open>ConfigStrategy::execute\<close>: the first word is read and
  dropped, every further word is an argument; when the first read fails, the stream has
  failed and the loop reads nothing.
\<close>

definition config_args :: "string \<Rightarrow> string list" where
  "config_args input = (case extract_word input of (command, rest) \<Rightarrow>
     if command = [] then [] else extract_all rest)"

definition ConfigStrategy_execute ::
  "'w popen \<Rightarrow> string \<Rightarrow> StrategyContext \<Rightarrow> 'w Env \<Rightarrow> 'w outcome" where
  "ConfigStrategy_execute popen input ctx env =
     (let args = config_args input in
        if args = [] then
          (Inr \<lparr>success = True, output = config_overview, exit_code = 0\<rparr>, env)
        else
          (let subcommand = args ! 0 in
             if subcommand = ''set'' \<and> length args \<ge> 3 then
               (Inr \<lparr>success = True,
                     output = ''Isaac > Config set (C++): '' @ args ! 1 @ '' = '' @ args ! 2
                       @ config_set_note,
                     exit_code = 0\<rparr>, env)
             else if subcommand = ''get'' \<and> length args \<ge> 2 then
               (Inr \<lparr>success = True,
                     output = ''Isaac > Config get (C++): '' @ args ! 1
                       @ '' = <value not implemented>''
                       @ ''\<newline>Note: Full config retrieval requires Python integration'',
                     exit_code = 0\<rparr>, env)
             else if subcommand = ''list'' then
               (Inr \<lparr>success = True,
                     output = ''Isaac > Available config keys (C++ implementation):''
                       @ ''\<newline>  machine_id\<newline>  api_keys\<newline>  preferences''
                       @ ''\<newline>  cloud_settings\<newline>\<newline>''
                       @ ''Note: Full listing requires Python config integration'',
                     exit_code = 0\<rparr>, env)
             else if subcommand = ''status'' then
               (Inr \<lparr>success = True,
                     output = ''Isaac > Config status: C++ ConfigStrategy active''
                       @ ''\<newline>  Implementation: Basic command parsing''
                       @ ''\<newline>  Persistence: Not yet integrated''
                       @ ''\<newline>  Features: set/get/list/status commands'',
                     exit_code = 0\<rparr>, env)
             else
               (Inr \<lparr>success = False, output = config_unknown, exit_code = 1\<rparr>, env)))"

definition DeviceRoutingStrategy_execute ::
  "'w popen \<Rightarrow> string \<Rightarrow> StrategyContext \<Rightarrow> 'w Env \<Rightarrow> 'w outcome" where
  "DeviceRoutingStrategy_execute popen input ctx env =
     (case find_char input CHR '' '' 1 of
        None \<Rightarrow>
          (Inr \<lparr>success = False,
                output = ''Usage: !device_alias /command\<newline>''
                  @ ''       !device_alias:strategy /command'',
                exit_code = 1\<rparr>, env)
      | Some space_pos \<Rightarrow>
          (let device_spec = take (space_pos - 1) (drop 1 input);
               device_cmd = drop (space_pos + 1) input;
               colon_pos = find_char device_spec CHR '':'' 0;
               device_alias = (case colon_pos of None \<Rightarrow> device_spec
                               | Some p \<Rightarrow> take p device_spec);
               strategy_name = (case colon_pos of None \<Rightarrow> ''least_load''
                                | Some p \<Rightarrow> drop (p + 1) device_spec);
               env' = env\<lparr>console := console env
                        @ [''Isaac > Executing on '' @ device_alias @ '': '' @ device_cmd]\<rparr>
           in
             if device_alias = ''local'' \<or> device_alias = ''localhost'' then
               (Inr \<lparr>success = True,
                     output = ''Isaac > Executed locally: '' @ device_cmd
                       @ ''\<newline>Note: Full local execution requires shell adapter integration'',
                     exit_code = 0\<rparr>, env')
             else if prefix ''group'' device_alias then
               (Inr \<lparr>success = True,
                     output = ''Isaac > Load balancing across group '' @ [CHR 0x27] @ device_alias
                       @ [CHR 0x27] @ '' with strategy '' @ [CHR 0x27] @ strategy_name
                       @ [CHR 0x27] @ '': '' @ device_cmd
                       @ ''\<newline>Note: Full group execution requires MachineRegistry integration'',
                     exit_code = 0\<rparr>, env')
             else
               (Inr \<lparr>success = True,
                     output = ''Isaac > Command queued for '' @ device_alias @ '' (strategy: ''
                       @ strategy_name @ ''): '' @ device_cmd
                       @ ''\<newline>Note: Full remote execution requires RemoteExecutor and cloud integration'',
                     exit_code = 0\<rparr>, env')))"

definition TaskModeStrategy_execute ::
  "'w popen \<Rightarrow> string \<Rightarrow> StrategyContext \<Rightarrow> 'w Env \<Rightarrow> 'w outcome" where
  "TaskModeStrategy_execute popen input ctx env =
     (case substr input 11 of Inl e \<Rightarrow> (Inl e, env)
      | Inr task_desc \<Rightarrow>
          if task_desc = [] then
            (Inr \<lparr>success = False,
                  output = ''Isaac > Task mode requires a description. ''
                    @ ''Usage: isaac task: <description>'',
                  exit_code = 1\<rparr>, env)
          else
            (Inr \<lparr>success = False,
                  output = ''Isaac > Task mode not yet fully implemented in C++: '' @ task_desc
                    @ ''\<newline>Note: Full task execution requires AI task planner integration'',
                  exit_code = 1\<rparr>, env))"

text \<open>
  \<^verbatim>\<open>input.substr(colon_pos + 1)\<close>: when there is no colon, \<^verbatim>\<open>npos + 1\<close> wraps to 0 and
  the whole input is taken.
\<close>

definition AgenticModeStrategy_execute ::
  "'w popen \<Rightarrow> string \<Rightarrow> StrategyContext \<Rightarrow> 'w Env \<Rightarrow> 'w outcome" where
  "AgenticModeStrategy_execute popen input ctx env =
     (let agentic_query = (case find_char input CHR '':'' 0 of None \<Rightarrow> input
                           | Some colon_pos \<Rightarrow> drop (colon_pos + 1) input) in
        if agentic_query = [] then
          (Inr \<lparr>success = False,
                output = ''Isaac > Agentic mode requires a query. ''
                  @ ''Usage: isaac agent: <query> or isaac agentic: <query>'',
                exit_code = 1\<rparr>, env)
        else
          (Inr \<lparr>success = False,
                output = ''Isaac > Agentic mode not yet fully implemented in C++: ''
                  @ agentic_query
                  @ ''\<newline>Note: Full agentic execution requires AgenticOrchestrator integration'',
                exit_code = 1\<rparr>, env))"

fun execute ::
  "'w popen \<Rightarrow> Strategy \<Rightarrow> string \<Rightarrow> StrategyContext \<Rightarrow> 'w Env \<Rightarrow> 'w outcome" where
  "execute popen PipeStrategy input ctx env = PipeStrategy_execute popen input ctx env"
| "execute popen CdStrategy input ctx env = CdStrategy_execute popen input ctx env"
| "execute popen ForceExecutionStrategy input ctx env =
     ForceExecutionStrategy_execute popen input ctx env"
| "execute popen ExitQuitStrategy input ctx env = ExitQuitStrategy_execute popen input ctx env"
| "execute popen ConfigStrategy input ctx env = ConfigStrategy_execute popen input ctx env"
| "execute popen DeviceRoutingStrategy input ctx env =
     DeviceRoutingStrategy_execute popen input ctx env"
| "execute popen ExitBlockerStrategy input ctx env =
     (Inr \<lparr>success = False, output = ''Exit blocker strategy not implemented'',
           exit_code = - 1\<rparr>, env)"
| "execute popen TaskModeStrategy input ctx env = TaskModeStrategy_execute popen input ctx env"
| "execute popen AgenticModeStrategy input ctx env =
     AgenticModeStrategy_execute popen input ctx env"
| "execute popen MetaCommandStrategy input ctx env =
     MetaCommandStrategy_execute popen input ctx env"
| "execute popen NaturalLanguageStrategy input ctx env =
     NaturalLanguageStrategy_execute popen input ctx env"
| "execute popen UnixAliasStrategy input ctx env =
     (Inr \<lparr>success = False, output = ''Unix alias strategy not implemented'',
           exit_code = - 1\<rparr>, env)"
| "execute popen TierExecutionStrategy input ctx env =
     TierExecutionStrategy_execute popen input ctx env"

section \<open>CommandRouter\<close>

text \<open>The constructor: no strategy yet, and a validator of its own.\<close>

definition CommandRouter_new :: "string option \<Rightarrow> CommandRouter" where
  "CommandRouter_new file =
     \<lparr>strategies = [], strategies_loaded = False, router_validator = TierValidator_new file,
      loads = 0\<rparr>"

definition registration :: "Strategy list" where
  "registration =
     [PipeStrategy, CdStrategy, ForceExecutionStrategy, ExitQuitStrategy, ConfigStrategy,
      DeviceRoutingStrategy, ExitBlockerStrategy, TaskModeStrategy, AgenticModeStrategy,
      MetaCommandStrategy, NaturalLanguageStrategy, UnixAliasStrategy, TierExecutionStrategy]"

text \<open>The comparator that \<^verbatim>\<open>load_strategies\<close> hands to \<^verbatim>\<open>std::sort\<close>.\<close>

definition by_priority :: "Strategy \<Rightarrow> Strategy \<Rightarrow> bool" where
  "by_priority a b = (get_priority a < get_priority b)"

text \<open>
  \<^verbatim>\<open>std::sort\<close> is the C++ library's, not this repository's: it is a parameter of the
  model. What the language standard promises of it is \<open>std_sort_contract\<close>: the result
  is a rearrangement of the range in which no element is less than an earlier one. The
  standard leaves the order of equivalent elements open (\<^verbatim>\<open>std::stable_sort\<close> is the
  algorithm that keeps it).
\<close>

type_synonym sorter = "(Strategy \<Rightarrow> Strategy \<Rightarrow> bool) \<Rightarrow> Strategy list \<Rightarrow> Strategy list"

definition std_sort_contract :: "sorter \<Rightarrow> bool" where
  "std_sort_contract std_sort = (\<forall>xs.
     mset (std_sort by_priority xs) = mset xs \<and>
     sorted_wrt (\<lambda>a b. \<not> by_priority b a) (std_sort by_priority xs))"

definition load_strategies :: "sorter \<Rightarrow> CommandRouter \<Rightarrow> CommandRouter" where
  "load_strategies std_sort r =
     r\<lparr>strategies := std_sort by_priority registration, loads := Suc (loads r)\<rparr>"

definition ensure_strategies_loaded :: "sorter \<Rightarrow> CommandRouter \<Rightarrow> CommandRouter" where
  "ensure_strategies_loaded std_sort r =
     (if \<not> strategies_loaded r then (load_strategies std_sort r)\<lparr>strategies_loaded := True\<rparr>
      else r)"

definition no_strategy :: CommandResult where
  "no_strategy =
     \<lparr>success = False, output = ''Isaac > No strategy could handle command'', exit_code = - 1\<rparr>"

text \<open>
  The scan loop of \<^verbatim>\<open>route_command\<close> with the statement after it: the first strategy
  that accepts the input executes it; the empty list is the loop running to its end.
  The router is held by a \<^verbatim>\<open>std::shared_ptr\<close>, as the bindings create it, so that
  \<^verbatim>\<open>shared_from_this()\<close> gives the router itself.
\<close>

fun try_strategies ::
  "'w popen \<Rightarrow> Strategy list \<Rightarrow> string \<Rightarrow> StrategyContext \<Rightarrow> 'w Env \<Rightarrow> 'w outcome" where
  "try_strategies popen [] input ctx env = (Inr no_strategy, env)"
| "try_strategies popen (strategy # rest) input ctx env =
     (if can_handle strategy input then execute popen strategy input ctx env
      else try_strategies popen rest input ctx env)"

definition route_command ::
  "sorter \<Rightarrow> 'w popen \<Rightarrow> string \<Rightarrow> CommandRouter \<times> 'w Env
     \<Rightarrow> (exn + CommandResult) \<times> CommandRouter \<times> 'w Env" where
  "route_command std_sort popen input_text st =
     (let r = ensure_strategies_loaded std_sort (fst st);
          ctx = \<lparr>router = r, validator = router_validator r\<rparr>
      in case try_strategies popen (strategies r) input_text ctx (snd st) of
           (result, env') \<Rightarrow> (result, r, env'))"

text \<open>
  The calls a client can make on a router, and a run of them from left to right.
  \<^verbatim>\<open>get_help\<close> is a \<^verbatim>\<open>const\<close> member function: it leaves the router as it is.
\<close>

datatype Call = Route string | Help

fun step :: "sorter \<Rightarrow> 'w popen \<Rightarrow> CommandRouter \<times> 'w Env \<Rightarrow> Call
               \<Rightarrow> CommandRouter \<times> 'w Env" where
  "step std_sort popen st (Route input) = snd (route_command std_sort popen input st)"
| "step std_sort popen st Help = st"

definition run :: "sorter \<Rightarrow> 'w popen \<Rightarrow> Call list \<Rightarrow> CommandRouter \<times> 'w Env
                     \<Rightarrow> CommandRouter \<times> 'w Env" where
  "run std_sort popen calls st = foldl (step std_sort popen) st calls"

text \<open>
  Two sorts that meet the contract: insertion sort, which keeps elements of equal
  priority in the order they had, and insertion sort of the reversed range, which
  turns them around.
\<close>

definition stable_sort :: sorter where
  "stable_sort cmp xs =
     foldr (\<lambda>x ys. takeWhile (\<lambda>y. cmp y x) ys @ x # dropWhile (\<lambda>y. cmp y x) ys) xs []"


text \<open>
  A shell and a starting state to run the model on: every pipe opens, prints \<open>ok\<close> and
  exits with status 0; nothing has been executed or printed yet.
\<close>

definition echo_popen :: "unit popen" where
  "echo_popen command w = (Some (''ok'', 0), w)"

definition fresh_env :: "unit Env" where
  "fresh_env = \<lparr>world = (), shell_calls = [], console = []\<rparr>"

text \<open>The registration order with the two strategies of priority 40 exchanged.\<close>

definition swapped_ties :: "Strategy list" where
  "swapped_ties =
     [PipeStrategy, CdStrategy, ForceExecutionStrategy, ExitQuitStrategy, ConfigStrategy,
      ExitBlockerStrategy, DeviceRoutingStrategy, TaskModeStrategy, AgenticModeStrategy,
      MetaCommandStrategy, NaturalLanguageStrategy, UnixAliasStrategy, TierExecutionStrategy]"

text \<open>
  What holds of a router between calls: nothing is loaded and nothing was ever loaded, or
  the list is the sorted registration list and was loaded once.
\<close>

definition router_inv :: "sorter \<Rightarrow> CommandRouter \<Rightarrow> bool" where
  "router_inv std_sort r =
     (if strategies_loaded r
      then strategies r = std_sort by_priority registration \<and> loads r = 1
      else strategies r = [] \<and> loads r = 0)"

section \<open>Facts about characters and tokens\<close>

lemma tolower_literal [simp]:
  "tolower CHR ''A'' = CHR ''a''" "tolower CHR ''B'' = CHR ''b''"
  "tolower CHR ''C'' = CHR ''c''" "tolower CHR ''D'' = CHR ''d''"
  "tolower CHR ''E'' = CHR ''e''" "tolower CHR ''F'' = CHR ''f''"
  "tolower CHR ''G'' = CHR ''g''" "tolower CHR ''H'' = CHR ''h''"
  "tolower CHR ''I'' = CHR ''i''" "tolower CHR ''J'' = CHR ''j''"
  "tolower CHR ''K'' = CHR ''k''" "tolower CHR ''L'' = CHR ''l''"
  "tolower CHR ''M'' = CHR ''m''" "tolower CHR ''N'' = CHR ''n''"
  "tolower CHR ''O'' = CHR ''o''" "tolower CHR ''P'' = CHR ''p''"
  "tolower CHR ''Q'' = CHR ''q''" "tolower CHR ''R'' = CHR ''r''"
  "tolower CHR ''S'' = CHR ''s''" "tolower CHR ''T'' = CHR ''t''"
  "tolower CHR ''U'' = CHR ''u''" "tolower CHR ''V'' = CHR ''v''"
  "tolower CHR ''W'' = CHR ''w''" "tolower CHR ''X'' = CHR ''x''"
  "tolower CHR ''Y'' = CHR ''y''" "tolower CHR ''Z'' = CHR ''z''"
  "tolower CHR ''a'' = CHR ''a''" "tolower CHR ''b'' = CHR ''b''"
  "tolower CHR ''c'' = CHR ''c''" "tolower CHR ''d'' = CHR ''d''"
  "tolower CHR ''e'' = CHR ''e''" "tolower CHR ''f'' = CHR ''f''"
  "tolower CHR ''g'' = CHR ''g''" "tolower CHR ''h'' = CHR ''h''"
  "tolower CHR ''i'' = CHR ''i''" "tolower CHR ''j'' = CHR ''j''"
  "tolower CHR ''k'' = CHR ''k''" "tolower CHR ''l'' = CHR ''l''"
  "tolower CHR ''m'' = CHR ''m''" "tolower CHR ''n'' = CHR ''n''"
  "tolower CHR ''o'' = CHR ''o''" "tolower CHR ''p'' = CHR ''p''"
  "tolower CHR ''q'' = CHR ''q''" "tolower CHR ''r'' = CHR ''r''"
  "tolower CHR ''s'' = CHR ''s''" "tolower CHR ''t'' = CHR ''t''"
  "tolower CHR ''u'' = CHR ''u''" "tolower CHR ''v'' = CHR ''v''"
  "tolower CHR ''w'' = CHR ''w''" "tolower CHR ''x'' = CHR ''x''"
  "tolower CHR ''y'' = CHR ''y''" "tolower CHR ''z'' = CHR ''z''"
  "tolower CHR ''-'' = CHR ''-''" "tolower CHR ''/'' = CHR ''/''"
  "tolower CHR ''!'' = CHR ''!''" "tolower CHR ''.'' = CHR ''.''"
  "tolower CHR '':'' = CHR '':''" "tolower CHR ''|'' = CHR ''|''"
  "tolower CHR '' '' = CHR '' ''"
  by (simp_all add: tolower_def upper_letters_def lower_letters_def)

lemma tolower_other: "c \<notin> set upper_letters \<Longrightarrow> tolower c = c"
proof -
  assume "c \<notin> set upper_letters"
  moreover have "length upper_letters = length lower_letters"
    by (simp add: upper_letters_def lower_letters_def)
  ultimately have "map_of (zip upper_letters lower_letters) c = None"
    by (simp add: map_of_zip_is_None)
  then show ?thesis by (simp add: tolower_def)
qed

lemma tolower_upper: "c \<in> set upper_letters \<Longrightarrow> tolower c \<in> set lower_letters"
proof -
  assume "c \<in> set upper_letters"
  moreover have "length upper_letters = length lower_letters"
    by (simp add: upper_letters_def lower_letters_def)
  ultimately obtain l where l: "map_of (zip upper_letters lower_letters) c = Some l"
    by (metis map_of_zip_is_Some)
  then have "l \<in> set lower_letters"
    by (meson in_set_zipE map_of_SomeD)
  with l show ?thesis by (simp add: tolower_def)
qed

lemma letters_not_space: "c \<in> set upper_letters \<union> set lower_letters \<Longrightarrow> \<not> isspace c"
  by (auto simp: isspace_def upper_letters_def lower_letters_def)

lemma tolower_isspace [simp]: "isspace (tolower c) = isspace c"
proof (cases "c \<in> set upper_letters")
  case True
  then show ?thesis using tolower_upper [OF True] letters_not_space [of c]
      letters_not_space [of "tolower c"] by simp
next
  case False
  then show ?thesis by (simp add: tolower_other)
qed

lemma isspace_literal [simp]:
  "isspace CHR '' ''" "\<not> isspace CHR ''-''" "\<not> isspace CHR ''/''" "\<not> isspace CHR ''!''"
  "\<not> isspace CHR ''.''" "\<not> isspace CHR '':''" "\<not> isspace CHR ''|''"
  "\<not> isspace CHR ''c''" "\<not> isspace CHR ''d''" "\<not> isspace CHR ''i''"
  by (simp_all add: isspace_def)

lemma base_command_blank: "list_all isspace command \<Longrightarrow> base_command command = []"
proof -
  assume "list_all isspace command"
  then have d: "dropWhile isspace command = []"
    by (simp add: list_all_iff)
  show ?thesis
    unfolding base_command_def extract_word_def Let_def d by simp
qed

lemma base_command_Cons:
  "\<not> isspace c \<Longrightarrow>
     base_command (c # rest) = tolower c # map tolower (takeWhile (\<lambda>c. \<not> isspace c) rest)"
  by (simp add: base_command_def extract_word_def Let_def)

lemma base_command_one_word:
  assumes "\<forall>c\<in>set s. \<not> isspace c"
  shows "base_command s = map tolower s"
proof (cases s)
  case Nil
  then show ?thesis by (simp add: base_command_def extract_word_def Let_def)
next
  case (Cons c rest)
  with assms have t: "takeWhile (\<lambda>c. \<not> isspace c) rest = rest" and c: "\<not> isspace c"
    by simp_all
  show ?thesis
    unfolding Cons base_command_Cons [OF c] t by simp
qed

lemma lowered_has_no_space:
  assumes "map tolower s = l" and "\<forall>c\<in>set l. \<not> isspace c"
  shows "\<forall>c\<in>set s. \<not> isspace c"
proof
  fix c assume "c \<in> set s"
  then have "tolower c \<in> set l" using assms(1) by auto
  with assms(2) show "\<not> isspace c" by auto
qed

text \<open>
  The base command is the first whitespace-delimited token, lower-cased: leading
  whitespace is skipped, and the token ends at the next whitespace or at the end.
\<close>

lemma base_command_token:
  assumes ws: "\<forall>c\<in>set ws. isspace c"
    and tok: "tok \<noteq> []" "\<forall>c\<in>set tok. \<not> isspace c"
    and rest: "rest = [] \<or> isspace (hd rest)"
  shows "base_command (ws @ tok @ rest) = map tolower tok"
proof -
  from ws have "dropWhile isspace (ws @ tok @ rest) = dropWhile isspace (tok @ rest)"
    by (simp add: dropWhile_append2)
  also from tok have "\<dots> = tok @ rest"
    by (cases tok) auto
  finally have d: "dropWhile isspace (ws @ tok @ rest) = tok @ rest" .
  from tok(2) have "takeWhile (\<lambda>c. \<not> isspace c) (tok @ rest)
      = tok @ takeWhile (\<lambda>c. \<not> isspace c) rest"
    by (simp add: takeWhile_append2)
  also from rest have "takeWhile (\<lambda>c. \<not> isspace c) rest = []"
    by (cases rest) auto
  finally have t: "takeWhile (\<lambda>c. \<not> isspace c) (tok @ rest) = tok"
    by simp
  show ?thesis
    unfolding base_command_def extract_word_def Let_def d t by simp
qed

section \<open>Facts about the classifier\<close>

lemma hardcoded_table:
  "load_hardcoded_defaults =
     [(''1'', [''ls'', ''cd'', ''clear'', ''cls'', ''pwd'', ''echo'', ''cat'', ''type'',
               ''Get-ChildItem'', ''Set-Location'', ''Get-Location'']),
      (''2'', [''grep'', ''Select-String'', ''head'', ''tail'', ''sort'', ''uniq'']),
      (''2.5'', [''find'', ''sed'', ''awk'', ''Where-Object'', ''ForEach-Object'']),
      (''3'', [''cp'', ''mv'', ''git'', ''npm'', ''pip'', ''reset'',
               ''Copy-Item'', ''Move-Item'', ''New-Item'', ''Remove-Item'']),
      (''4'', [''rm'', ''del'', ''format'', ''dd'', ''Remove-Item'', ''Format-Volume'',
               ''Clear-Disk''])]"
  by (simp add: load_hardcoded_defaults_def map_of_initializer_def)

lemma stof_labels:
  "stof ''1'' = 1" "stof ''2'' = 2" "stof ''2.5'' = 5 / 2" "stof ''3'' = 3" "stof ''4'' = 4"
  by (simp_all add: stof_def is_digit_def digit_value_def)

lemma alias_matches_iff:
  "alias_matches commands base_cmd \<longleftrightarrow> base_cmd \<in> set (map (map tolower) commands)"
  by (induction commands) auto

lemma scan_tiers_no_match:
  "\<forall>entry\<in>set tier_defaults. \<not> alias_matches (snd entry) base_cmd
     \<Longrightarrow> scan_tiers tier_defaults base_cmd = 3"
  by (induction tier_defaults) auto

lemma get_tier_of_base:
  "base_command command \<noteq> [] \<Longrightarrow>
     get_tier tier_defaults command = scan_tiers tier_defaults (base_command command)"
  using base_command_blank [of command] by (auto simp: get_tier_def)


lemma scan_hardcoded_remove_item: "scan_tiers load_hardcoded_defaults ''remove-item'' = 3"
  unfolding hardcoded_table by (simp add: alias_matches_iff stof_labels)


lemma base_command_literal:
  "base_command ''ls'' = ''ls''" "base_command ''grep x'' = ''grep''"
  "base_command ''find .'' = ''find''" "base_command ''rm -rf /'' = ''rm''"
  "base_command ''REMOVE-ITEM -Recurse C:'' = ''remove-item''"
  "base_command ''frobnicate -x'' = ''frobnicate''"
  "base_command ''rm -rf / | cat'' = ''rm''"
  "base_command ''git status'' = ''git''"
  by (simp_all add: base_command_def extract_word_def isspace_def)

lemma get_tier_hardcoded_literal:
  "get_tier load_hardcoded_defaults ''ls'' = 1"
  "get_tier load_hardcoded_defaults ''grep x'' = 2"
  "get_tier load_hardcoded_defaults ''find .'' = 5 / 2"
  "get_tier load_hardcoded_defaults ''rm -rf /'' = 4"
  "get_tier load_hardcoded_defaults ''rm -rf / | cat'' = 4"
  "get_tier load_hardcoded_defaults ''git status'' = 3"
  unfolding hardcoded_table
  by (simp_all add: get_tier_of_base base_command_literal alias_matches_iff stof_labels)

lemma parse_json_no_match: "search_tier json_content = None \<Longrightarrow> parse_json json_content m = m"
  by (simp add: parse_json.simps)

lemma not_json_no_match: "search_tier ''{ not json'' = None"
  by (simp add: match_tier_here_def)

lemma validator_without_file: "TierValidator_new None = load_hardcoded_defaults"
  by (simp add: TierValidator_new_def load_tier_defaults_def load_from_file_def)

lemma validator_with_file:
  "TierValidator_new (Some json_content) = parse_json json_content []"
  by (simp add: TierValidator_new_def load_tier_defaults_def load_from_file_def)

text \<open>
  The outer expression matches only where a \<open>]\<close> is directly followed by a double quote.
  A file without that pair of bytes gives no entry at all, and the table stays empty.
\<close>

lemma lazy_to_close_shape:
  "lazy_to_close s = Some (g, sfx) \<Longrightarrow> s = g @ [CHR '']'', CHR 0x22] @ sfx"
proof (induction s arbitrary: g)
  case Nil
  then show ?case by simp
next
  case (Cons c cs)
  show ?case
  proof (cases "c = CHR '']'' \<and> take 1 cs = [CHR 0x22]")
    case True
    with Cons.prems have "g = []" and "sfx = drop 1 cs" by simp_all
    moreover from True have "cs = CHR 0x22 # drop 1 cs" by (cases cs) simp_all
    ultimately show ?thesis using True by simp
  next
    case False
    with Cons.prems obtain g' where "lazy_to_close cs = Some (g', sfx)" and "g = c # g'"
      by (auto split: if_splits option.splits)
    with Cons.IH show ?thesis by simp
  qed
qed

lemma match_tier_here_needs_close:
  assumes "match_tier_here s = Some m"
  shows "sublist [CHR '']'', CHR 0x22] s"
proof -
  from assms obtain tier r g sfx where n: "match_number (drop 1 s) = Some (tier, r)"
    and c: "lazy_to_close (drop 1 (dropWhile isspace (drop 2 r))) = Some (g, sfx)"
    by (auto simp: match_tier_here_def Let_def split: if_splits option.splits)
  from n have "suffix r (drop 1 s)"
    by (auto simp: match_number_def Let_def suffix_dropWhile split: if_splits
        intro: suffix_order.trans [OF suffix_dropWhile suffix_order.trans [OF suffix_drop suffix_dropWhile]])
  then have "suffix r s"
    using suffix_drop suffix_order.trans by blast
  moreover have "suffix (drop 1 (dropWhile isspace (drop 2 r))) r"
    by (meson suffix_drop suffix_dropWhile suffix_order.trans)
  ultimately have "suffix (drop 1 (dropWhile isspace (drop 2 r))) s"
    using suffix_order.trans by blast
  moreover from lazy_to_close_shape [OF c]
  have "sublist [CHR '']'', CHR 0x22] (drop 1 (dropWhile isspace (drop 2 r)))"
    by (metis sublist_appendI)
  ultimately show ?thesis
    by (meson suffix_imp_sublist sublist_order.order.trans)
qed

lemma search_tier_needs_close:
  "search_tier s = Some m \<Longrightarrow> sublist [CHR '']'', CHR 0x22] s"
proof (induction s)
  case Nil
  then show ?case by (simp add: match_tier_here_def)
next
  case (Cons c cs)
  show ?case
  proof (cases "match_tier_here (c # cs)")
    case None
    with Cons have "sublist [CHR '']'', CHR 0x22] cs" by simp
    then show ?thesis by (simp add: sublist_Cons_right)
  next
    case (Some m')
    then show ?thesis by (rule match_tier_here_needs_close)
  qed
qed

lemma file_without_close_gives_empty_table:
  assumes "\<not> sublist [CHR '']'', CHR 0x22] json_content"
  shows "TierValidator_new (Some json_content) = []"
proof -
  from assms have "search_tier json_content = None"
    using search_tier_needs_close by (cases "search_tier json_content") auto
  then show ?thesis
    by (simp add: validator_with_file parse_json_no_match)
qed

section \<open>Claims about the classifier\<close>

text \<open>
  C4. \<^verbatim>\<open>get_tier\<close> returns 3.0 for every empty or whitespace-only input, and 3.0 for every
  input whose case-folded first whitespace-delimited token (\<open>base_command\<close>) equals no
  lower-cased alias of the rule table, whatever the table holds. In both cases the input
  requires validation and is neither safe nor a tier-2.5 confirmation: the default is
  never on the permissive side. The base command of an input made of whitespace, a token
  without whitespace and a rest that is empty or begins with whitespace is that token,
  lower-cased.
\<close>

theorem get_tier_defaults_to_validation:
  "((\<forall>c\<in>set command. isspace c) \<longrightarrow> get_tier tier_defaults command = 3) \<and>
   ((\<forall>entry\<in>set tier_defaults. \<forall>cmd\<in>set (snd entry). map tolower cmd \<noteq> base_command command)
      \<longrightarrow> get_tier tier_defaults command = 3) \<and>
   (get_tier tier_defaults command = 3 \<longrightarrow>
      requires_validation tier_defaults command \<and> \<not> is_safe tier_defaults command
      \<and> \<not> requires_confirmation tier_defaults command) \<and>
   (\<forall>ws tok rest. command = ws @ tok @ rest \<and> (\<forall>c\<in>set ws. isspace c) \<and> tok \<noteq> []
        \<and> (\<forall>c\<in>set tok. \<not> isspace c) \<and> (rest = [] \<or> isspace (hd rest))
      \<longrightarrow> base_command command = map tolower tok)"
proof (intro conjI impI allI)
  assume "\<forall>c\<in>set command. isspace c"
  then show "get_tier tier_defaults command = 3"
    by (simp add: get_tier_def list_all_iff)
next
  assume "\<forall>entry\<in>set tier_defaults. \<forall>cmd\<in>set (snd entry). map tolower cmd \<noteq> base_command command"
  then have "\<forall>entry\<in>set tier_defaults. \<not> alias_matches (snd entry) (base_command command)"
    by (fastforce simp: alias_matches_iff)
  then have "scan_tiers tier_defaults (base_command command) = 3"
    by (rule scan_tiers_no_match)
  then show "get_tier tier_defaults command = 3"
    by (simp add: get_tier_def)
next
  assume "get_tier tier_defaults command = 3"
  then show "requires_validation tier_defaults command"
    and "\<not> is_safe tier_defaults command"
    and "\<not> requires_confirmation tier_defaults command"
    by (simp_all add: requires_validation_def is_safe_def requires_confirmation_def)
next
  fix ws tok rest
  assume "command = ws @ tok @ rest \<and> (\<forall>c\<in>set ws. isspace c) \<and> tok \<noteq> []
        \<and> (\<forall>c\<in>set tok. \<not> isspace c) \<and> (rest = [] \<or> isspace (hd rest))"
  then show "base_command command = map tolower tok"
    using base_command_token [of ws tok rest] by blast
qed

theorem get_tier_defaults_to_validation_witness:
  "get_tier load_hardcoded_defaults [] = 3 \<and>
   get_tier load_hardcoded_defaults ''   '' = 3 \<and>
   get_tier load_hardcoded_defaults ''frobnicate -x'' = 3 \<and>
   requires_validation load_hardcoded_defaults ''frobnicate -x'' \<and>
   \<not> is_safe load_hardcoded_defaults ''frobnicate -x''"
proof -
  have blank: "\<forall>c\<in>set ''   ''. isspace c"
    by simp
  have unknown: "\<forall>entry\<in>set load_hardcoded_defaults. \<forall>cmd\<in>set (snd entry).
      map tolower cmd \<noteq> base_command ''frobnicate -x''"
    unfolding hardcoded_table by (simp add: base_command_literal)
  show ?thesis
    using get_tier_defaults_to_validation [of "[]" load_hardcoded_defaults]
      get_tier_defaults_to_validation [of "''   ''" load_hardcoded_defaults]
      get_tier_defaults_to_validation [of "''frobnicate -x''" load_hardcoded_defaults]
      blank unknown
    by simp
qed

text \<open>
  C5. When the rule file cannot be opened, the classifier holds the built-in table and
  nothing else, and \<^verbatim>\<open>get_tier\<close> gives 1 for "ls", 2 for "grep x", 2.5 for "find ." and 4
  for "rm -rf /". When the file opens, \<^verbatim>\<open>load_from_file\<close> reports success whatever
  \<^verbatim>\<open>parse_json\<close> found: for the content \<^verbatim>\<open>{ not json\<close>, as for every content in
  which no \<open>]\<close> is directly followed by a double quote, the table stays empty, the
  built-in table is not loaded, and every command is tier 3, the four above too.
\<close>

theorem rule_file_unparsable_no_fallback:
  "TierValidator_new None = load_hardcoded_defaults \<and>
   get_tier (TierValidator_new None) ''ls'' = 1 \<and>
   get_tier (TierValidator_new None) ''grep x'' = 2 \<and>
   get_tier (TierValidator_new None) ''find .'' = 5 / 2 \<and>
   get_tier (TierValidator_new None) ''rm -rf /'' = 4 \<and>
   load_from_file (Some ''{ not json'') [] = (True, []) \<and>
   TierValidator_new (Some ''{ not json'') = [] \<and>
   get_tier (TierValidator_new (Some ''{ not json'')) ''ls'' = 3 \<and>
   get_tier (TierValidator_new (Some ''{ not json'')) ''grep x'' = 3 \<and>
   get_tier (TierValidator_new (Some ''{ not json'')) ''find .'' = 3 \<and>
   get_tier (TierValidator_new (Some ''{ not json'')) ''rm -rf /'' = 3 \<and>
   (\<forall>json_content command. \<not> sublist [CHR '']'', CHR 0x22] json_content \<longrightarrow>
      TierValidator_new (Some json_content) = [] \<and>
      get_tier (TierValidator_new (Some json_content)) command = 3)"
proof -
  have empty: "parse_json ''{ not json'' [] = []"
    by (rule parse_json_no_match) (rule not_json_no_match)
  have three: "get_tier [] command = 3" for command
    by (simp add: get_tier_def)
  have "TierValidator_new (Some json_content) = [] \<and>
      get_tier (TierValidator_new (Some json_content)) command = 3"
    if "\<not> sublist [CHR '']'', CHR 0x22] json_content" for json_content command
    using file_without_close_gives_empty_table [OF that] by (simp add: three)
  then show ?thesis
    by (simp add: validator_without_file validator_with_file load_from_file_def empty three
        get_tier_hardcoded_literal)
qed

theorem rule_file_unparsable_no_fallback_witness:
  "get_tier (TierValidator_new (Some ''{ not json'')) ''ls'' \<noteq> 1 \<and>
   get_tier (TierValidator_new (Some ''{ not json'')) ''rm -rf /'' \<noteq> 4"
proof -
  from rule_file_unparsable_no_fallback
  have "get_tier (TierValidator_new (Some ''{ not json'')) ''ls'' = 3"
    and "get_tier (TierValidator_new (Some ''{ not json'')) ''rm -rf /'' = 3"
    by blast+
  then show ?thesis by simp
qed

text \<open>
  C10. In the built-in table the alias "Remove-Item" stands in the list of tier "3" and
  in the list of tier "4"; the keys are visited in the order "1", "2", "2.5", "3", "4";
  so \<^verbatim>\<open>get_tier\<close> is 3, not 4, for every command whose first token is "Remove-Item" in
  any letter case, and for "Remove-Item" itself in any letter case.
\<close>

theorem remove_item_is_tier_3:
  "(\<exists>cmds3 cmds4. map_of load_hardcoded_defaults ''3'' = Some cmds3 \<and>
      map_of load_hardcoded_defaults ''4'' = Some cmds4 \<and>
      ''Remove-Item'' \<in> set cmds3 \<and> ''Remove-Item'' \<in> set cmds4) \<and>
   map fst load_hardcoded_defaults = [''1'', ''2'', ''2.5'', ''3'', ''4''] \<and>
   (\<forall>command. base_command command = ''remove-item''
      \<longrightarrow> get_tier load_hardcoded_defaults command = 3) \<and>
   (\<forall>s. map tolower s = ''remove-item''
      \<longrightarrow> get_tier load_hardcoded_defaults s = 3 \<and> get_tier load_hardcoded_defaults s \<noteq> 4)"
proof (intro conjI allI impI)
  show "\<exists>cmds3 cmds4. map_of load_hardcoded_defaults ''3'' = Some cmds3 \<and>
      map_of load_hardcoded_defaults ''4'' = Some cmds4 \<and>
      ''Remove-Item'' \<in> set cmds3 \<and> ''Remove-Item'' \<in> set cmds4"
    unfolding hardcoded_table by simp
  show "map fst load_hardcoded_defaults = [''1'', ''2'', ''2.5'', ''3'', ''4'']"
    unfolding hardcoded_table by simp
next
  fix command
  assume "base_command command = ''remove-item''"
  then show "get_tier load_hardcoded_defaults command = 3"
    by (simp add: get_tier_of_base scan_hardcoded_remove_item)
next
  fix s
  assume l: "map tolower s = ''remove-item''"
  have "\<forall>c\<in>set s. \<not> isspace c"
    by (rule lowered_has_no_space [OF l]) (simp add: isspace_def)
  then have "base_command s = ''remove-item''"
    using l by (simp add: base_command_one_word)
  then show "get_tier load_hardcoded_defaults s = 3"
    and "get_tier load_hardcoded_defaults s \<noteq> 4"
    by (simp_all add: get_tier_of_base scan_hardcoded_remove_item)
qed

theorem remove_item_is_tier_3_witness:
  "get_tier load_hardcoded_defaults ''REMOVE-ITEM -Recurse C:'' = 3 \<and>
   get_tier load_hardcoded_defaults ''Remove-Item'' = 3 \<and>
   get_tier load_hardcoded_defaults ''remove-ITEM'' \<noteq> 4"
proof -
  note by_token = remove_item_is_tier_3 [THEN conjunct2, THEN conjunct2, THEN conjunct1, rule_format]
  note by_name = remove_item_is_tier_3 [THEN conjunct2, THEN conjunct2, THEN conjunct2, rule_format]
  have l1: "map tolower ''Remove-Item'' = ''remove-item''"
    and l2: "map tolower ''remove-ITEM'' = ''remove-item''"
    by simp_all
  show ?thesis
    using by_token [OF base_command_literal(5)] by_name [OF l1] by_name [OF l2] by simp
qed

section \<open>Facts about sorting and the strategy list\<close>

lemma stable_insert_is_insort:
  "takeWhile (\<lambda>y. by_priority y x) ys @ x # dropWhile (\<lambda>y. by_priority y x) ys
     = insort_key get_priority x ys"
  by (induction ys) (auto simp: by_priority_def)

lemma stable_sort_is_sort_key: "stable_sort by_priority xs = sort_key get_priority xs"
  by (induction xs) (simp_all add: stable_sort_def stable_insert_is_insort)

lemma sorted_by_priority:
  "sorted_wrt (\<lambda>a b. \<not> by_priority b a) xs = sorted (map get_priority xs)"
  by (simp add: sorted_map by_priority_def not_less)

lemma stable_sort_contract: "std_sort_contract stable_sort"
  by (simp add: std_sort_contract_def stable_sort_is_sort_key sorted_by_priority)




lemma priority_cases:
  "get_priority s = 10 \<longleftrightarrow> s = PipeStrategy"
  "get_priority s = 15 \<longleftrightarrow> s = CdStrategy"
  "get_priority s = 20 \<longleftrightarrow> s = ForceExecutionStrategy"
  "get_priority s = 25 \<longleftrightarrow> s = ExitQuitStrategy"
  "get_priority s = 35 \<longleftrightarrow> s = ConfigStrategy"
  "get_priority s = 40 \<longleftrightarrow> s = DeviceRoutingStrategy \<or> s = ExitBlockerStrategy"
  "get_priority s = 45 \<longleftrightarrow> s = TaskModeStrategy"
  "get_priority s = 48 \<longleftrightarrow> s = AgenticModeStrategy"
  "get_priority s = 50 \<longleftrightarrow> s = MetaCommandStrategy"
  "get_priority s = 55 \<longleftrightarrow> s = NaturalLanguageStrategy"
  "get_priority s = 60 \<longleftrightarrow> s = UnixAliasStrategy"
  "get_priority s = 100 \<longleftrightarrow> s = TierExecutionStrategy"
  by (cases s; simp)+

text \<open>
  A rearrangement of the registered strategies in ascending priority is the
  registration order, or the registration order with the two strategies of priority 40
  exchanged.
\<close>

lemma sorted_rearrangement_cases:
  assumes m: "mset ys = mset registration" and s: "sorted (map get_priority ys)"
  shows "ys = registration \<or> ys = swapped_ties"
proof -
  from m have "mset (map get_priority ys) = mset (map get_priority registration)"
    by (metis mset_map)
  with s have "sort (map get_priority registration) = map get_priority ys"
    by (metis properties_for_sort)
  then have p: "map get_priority ys = [10, 15, 20, 25, 35, 40, 40, 45, 48, 50, 55, 60, 100]"
    by (simp add: registration_def)
  then obtain y6 y7 where ys: "ys =
     [PipeStrategy, CdStrategy, ForceExecutionStrategy, ExitQuitStrategy, ConfigStrategy,
      y6, y7, TaskModeStrategy, AgenticModeStrategy,
      MetaCommandStrategy, NaturalLanguageStrategy, UnixAliasStrategy, TierExecutionStrategy]"
    and y6: "y6 = DeviceRoutingStrategy \<or> y6 = ExitBlockerStrategy"
    and y7: "y7 = DeviceRoutingStrategy \<or> y7 = ExitBlockerStrategy"
    by (auto simp: map_eq_Cons_conv priority_cases)
  from m have "count (mset ys) DeviceRoutingStrategy = count (mset registration) DeviceRoutingStrategy"
    by simp
  then have "count (mset ys) DeviceRoutingStrategy = 1"
    by (simp add: registration_def)
  with ys y6 y7 show ?thesis
    by (auto simp: registration_def swapped_ties_def)
qed

lemma loaded_cases:
  assumes "std_sort_contract std_sort"
  shows "std_sort by_priority registration = registration
         \<or> std_sort by_priority registration = swapped_ties"
  using assms sorted_rearrangement_cases [of "std_sort by_priority registration"]
  by (simp add: std_sort_contract_def sorted_by_priority)




section \<open>Facts about dispatch\<close>

lemma try_strategies_find:
  "try_strategies popen ss input ctx env =
     (case find (\<lambda>s. can_handle s input) ss of
        None \<Rightarrow> (Inr no_strategy, env)
      | Some s \<Rightarrow> execute popen s input ctx env)"
  by (induction ss) simp_all

lemma via_shell_returns:
  "via_shell popen command env =
     (Inr (fst (ShellAdapter_execute popen command env)),
      snd (ShellAdapter_execute popen command env))"
  by (simp add: via_shell_def split: prod.splits)

lemma shell_calls_execute:
  "shell_calls (snd (ShellAdapter_execute popen command env)) = shell_calls env @ [command]"
  by (simp add: ShellAdapter_execute_def split: prod.splits)




subsection \<open>The router's invariant\<close>

lemma router_inv_new: "router_inv std_sort (CommandRouter_new file)"
  by (simp add: router_inv_def CommandRouter_new_def)

lemma ensure_loaded_inv:
  "router_inv std_sort r \<Longrightarrow> router_inv std_sort (ensure_strategies_loaded std_sort r)"
  by (simp add: router_inv_def ensure_strategies_loaded_def load_strategies_def)

lemma ensure_loaded_fields:
  assumes "router_inv std_sort r"
  shows "strategies (ensure_strategies_loaded std_sort r) = std_sort by_priority registration"
    and "strategies_loaded (ensure_strategies_loaded std_sort r)"
    and "loads (ensure_strategies_loaded std_sort r) = 1"
    and "router_validator (ensure_strategies_loaded std_sort r) = router_validator r"
  using assms
  by (simp_all add: router_inv_def ensure_strategies_loaded_def load_strategies_def
      split: if_splits)


lemma route_command_router:
  "fst (snd (route_command std_sort popen input st)) = ensure_strategies_loaded std_sort (fst st)"
  by (simp add: route_command_def Let_def split: prod.splits)

lemma step_inv:
  "router_inv std_sort (fst st) \<Longrightarrow> router_inv std_sort (fst (step std_sort popen st c))"
  by (cases c) (simp_all add: route_command_router ensure_loaded_inv)

lemma run_inv:
  "router_inv std_sort (fst st) \<Longrightarrow> router_inv std_sort (fst (run std_sort popen calls st))"
  unfolding run_def
  by (induction calls arbitrary: st) (simp_all add: step_inv)


lemma reachable_inv:
  "router_inv std_sort (fst (run std_sort popen calls (CommandRouter_new file, env)))"
  by (simp add: run_inv router_inv_new)


section \<open>Claims about the router\<close>

lemma loaded_list_facts:
  assumes "l = registration \<or> l = swapped_ties"
  shows "TierExecutionStrategy \<in> set l"
    and "\<forall>s\<in>set l. get_priority s \<le> 100"
    and "\<forall>s\<in>set l. 10 \<le> get_priority s"
    and "hd l = PipeStrategy"
    and "mset l = mset registration"
    and "sorted (map get_priority l)"
  using assms by (auto simp: registration_def swapped_ties_def)



text \<open>
  C3. For every input that contains the character \<open>|\<close>, after any earlier calls:
  \<^verbatim>\<open>PipeStrategy\<close> heads the strategy list, its priority 10 is the least of all, it is
  the first strategy that accepts the input, and \<^verbatim>\<open>route_command\<close> returns what the
  shell adapter returns for the input itself, unchanged; the shell is invoked once, with
  that input.
\<close>

theorem pipe_selected_first:
  assumes "std_sort_contract std_sort" and "CHR ''|'' \<in> set input"
  shows "let st = run std_sort popen calls (CommandRouter_new file, env);
             r = ensure_strategies_loaded std_sort (fst st);
             sh = ShellAdapter_execute popen input (snd st)
         in hd (strategies r) = PipeStrategy \<and>
            get_priority PipeStrategy = 10 \<and>
            (\<forall>s\<in>set (strategies r). get_priority PipeStrategy \<le> get_priority s) \<and>
            find (\<lambda>s. can_handle s input) (strategies r) = Some PipeStrategy \<and>
            route_command std_sort popen input st = (Inr (fst sh), r, snd sh) \<and>
            shell_calls (snd sh) = shell_calls (snd st) @ [input]"
proof -
  define st where "st = run std_sort popen calls (CommandRouter_new file, env)"
  define r where "r = ensure_strategies_loaded std_sort (fst st)"
  define sh where "sh = ShellAdapter_execute popen input (snd st)"
  have inv: "router_inv std_sort (fst st)"
    unfolding st_def by (rule reachable_inv)
  have l: "strategies r = registration \<or> strategies r = swapped_ties"
    unfolding r_def ensure_loaded_fields(1) [OF inv] by (rule loaded_cases [OF assms(1)])
  note facts = loaded_list_facts [OF l]
  have f: "find (\<lambda>s. can_handle s input) (strategies r) = Some PipeStrategy"
    using l assms(2) by (auto simp: registration_def swapped_ties_def)
  have "route_command std_sort popen input st = (Inr (fst sh), r, snd sh)"
    using f
    by (simp add: route_command_def Let_def try_strategies_find r_def sh_def
        PipeStrategy_execute_def via_shell_returns)
  moreover have "shell_calls (snd sh) = shell_calls (snd st) @ [input]"
    unfolding sh_def by (rule shell_calls_execute)
  ultimately show ?thesis
    using f facts(3,4)
    unfolding Let_def st_def [symmetric] r_def [symmetric] sh_def [symmetric]
    by auto
qed

theorem pipe_selected_first_witness:
  "route_command stable_sort echo_popen ''cat notes | sort''
       (run stable_sort echo_popen [] (CommandRouter_new None, fresh_env))
     = (Inr \<lparr>success = True, output = ''ok'', exit_code = 0\<rparr>,
        ensure_strategies_loaded stable_sort (CommandRouter_new None),
        fresh_env\<lparr>shell_calls := [''cat notes | sort'']\<rparr>)"
proof -
  have "CHR ''|'' \<in> set ''cat notes | sort''"
    by simp
  from pipe_selected_first [OF stable_sort_contract this, of echo_popen "[]" None fresh_env]
  show ?thesis
    by (simp add: Let_def run_def ShellAdapter_execute_def execute_with_timeout_def
        execute_unix_def echo_popen_def fresh_env_def)
qed













section \<open>Lockdown\<close>







section \<open>Claims about the Config strategy\<close>

lemma extract_word_token:
  assumes "w \<noteq> []" and "\<forall>c\<in>set w. \<not> isspace c"
  shows "extract_word (w @ CHR '' '' # rest) = (w, CHR '' '' # rest)"
    and "extract_word (CHR '' '' # w @ CHR '' '' # rest) = (w, CHR '' '' # rest)"
    and "extract_word w = (w, [])"
    and "extract_word (CHR '' '' # w) = (w, [])"
proof -
  from assms have d: "dropWhile isspace (w @ r) = w @ r" for r
    by (cases w) auto
  from assms(2) have t: "takeWhile (\<lambda>c. \<not> isspace c) (w @ CHR '' '' # r) = w"
    and u: "dropWhile (\<lambda>c. \<not> isspace c) (w @ CHR '' '' # r) = CHR '' '' # r" for r
    by (simp_all add: takeWhile_append2 dropWhile_append2)
  from assms(2) have t': "takeWhile (\<lambda>c. \<not> isspace c) w = w"
    and u': "dropWhile (\<lambda>c. \<not> isspace c) w = []"
    by simp_all
  show "extract_word (w @ CHR '' '' # rest) = (w, CHR '' '' # rest)"
    unfolding extract_word_def Let_def d t u ..
  show "extract_word (CHR '' '' # w @ CHR '' '' # rest) = (w, CHR '' '' # rest)"
    using d [of "CHR '' '' # rest"] t u unfolding extract_word_def Let_def by simp
  show "extract_word w = (w, [])"
    using d [of "[]"] t' u' unfolding extract_word_def Let_def by simp
  show "extract_word (CHR '' '' # w) = (w, [])"
    using d [of "[]"] t' u' unfolding extract_word_def Let_def by simp
qed

lemma extract_all_blank: "extract_all [] = []"
  by (simp add: extract_all.simps extract_word_def)

lemma extract_all_token:
  assumes "w \<noteq> []" and "\<forall>c\<in>set w. \<not> isspace c"
  shows "extract_all (CHR '' '' # w @ CHR '' '' # rest) = w # extract_all (CHR '' '' # rest)"
    and "extract_all (CHR '' '' # w) = [w]"
  using assms
  by (simp_all add: extract_all.simps [of "CHR '' '' # w @ CHR '' '' # rest"]
      extract_all.simps [of "CHR '' '' # w"] extract_word_token extract_all_blank)

lemma config_args_set:
  assumes "key \<noteq> []" and "\<forall>c\<in>set key. \<not> isspace c"
  shows "val \<noteq> [] \<Longrightarrow> \<forall>c\<in>set val. \<not> isspace c \<Longrightarrow>
           config_args (''/config set '' @ key @ '' '' @ val) = [''set'', key, val]"
    and "config_args (''/config set '' @ key) = [''set'', key]"
proof -
  have c: "extract_word (''/config'' @ CHR '' '' # r) = (''/config'', CHR '' '' # r)" for r
    by (rule extract_word_token) (simp_all add: isspace_def)
  have s: "extract_all (CHR '' '' # ''set'' @ CHR '' '' # r) = ''set'' # extract_all (CHR '' '' # r)"
    for r
    by (rule extract_all_token) (simp_all add: isspace_def)
  show "config_args (''/config set '' @ key) = [''set'', key]"
    using c [of "''set '' @ key"] s [of key] extract_all_token(2) [OF assms]
    by (simp add: config_args_def)
  show "config_args (''/config set '' @ key @ '' '' @ val) = [''set'', key, val]"
    if "val \<noteq> []" and "\<forall>c\<in>set val. \<not> isspace c"
    using c [of "''set '' @ key @ '' '' @ val"] s [of "key @ '' '' @ val"]
      extract_all_token(1) [OF assms, of val] extract_all_token(2) [OF that]
    by (simp add: config_args_def)
qed

text \<open>
  C9. \<^verbatim>\<open>ConfigStrategy::execute\<close>, for every input: it returns a result, raises nothing,
  and touches neither shell nor console. When the words after the first are "set", a key,
  a value and possibly more, the result is a success with exit code 0 whose text names
  the key and the value; "/config set key value" is such an input. When they are "set"
  alone or "set" and one more word, as for "/config set key", or when the first of them
  is none of set, get, list, status, the result is a failure with exit code 1 and a
  non-empty explanation.
\<close>

theorem config_set_and_failures:
  "let args = config_args input;
       result = ConfigStrategy_execute popen input ctx env
   in execute popen ConfigStrategy input ctx env = result \<and>
      snd result = env \<and> (\<exists>r. fst result = Inr r) \<and>
      (\<forall>key value more. args = ''set'' # key # value # more \<longrightarrow>
         fst result = Inr \<lparr>success = True,
           output = ''Isaac > Config set (C++): '' @ key @ '' = '' @ value @ config_set_note,
           exit_code = 0\<rparr>) \<and>
      (args = [''set''] \<or> (\<exists>key. args = [''set'', key]) \<longrightarrow>
         fst result = Inr \<lparr>success = False, output = config_unknown, exit_code = 1\<rparr>) \<and>
      (\<forall>sub more. args = sub # more \<and> sub \<notin> {''set'', ''get'', ''list'', ''status''} \<longrightarrow>
         fst result = Inr \<lparr>success = False, output = config_unknown, exit_code = 1\<rparr>) \<and>
      config_unknown \<noteq> [] \<and>
      (\<forall>key value. key \<noteq> [] \<and> value \<noteq> [] \<and> (\<forall>c\<in>set key. \<not> isspace c)
           \<and> (\<forall>c\<in>set value. \<not> isspace c) \<longrightarrow>
         config_args (''/config set '' @ key @ '' '' @ value) = [''set'', key, value] \<and>
         config_args (''/config set '' @ key) = [''set'', key])"
proof -
  have "config_unknown \<noteq> []"
    by (simp add: config_unknown_def)
  moreover have "\<exists>r. fst (ConfigStrategy_execute popen input ctx env) = Inr r"
    and "snd (ConfigStrategy_execute popen input ctx env) = env"
    by (simp_all add: ConfigStrategy_execute_def Let_def)
  moreover have "fst (ConfigStrategy_execute popen input ctx env)
      = Inr \<lparr>success = True,
           output = ''Isaac > Config set (C++): '' @ key @ '' = '' @ value @ config_set_note,
           exit_code = 0\<rparr>"
    if "config_args input = ''set'' # key # value # more" for key "value" more
    using that by (simp add: ConfigStrategy_execute_def Let_def)
  moreover have "fst (ConfigStrategy_execute popen input ctx env)
      = Inr \<lparr>success = False, output = config_unknown, exit_code = 1\<rparr>"
    if "config_args input = [''set''] \<or> (\<exists>key. config_args input = [''set'', key])"
    using that by (auto simp: ConfigStrategy_execute_def Let_def)
  moreover have "fst (ConfigStrategy_execute popen input ctx env)
      = Inr \<lparr>success = False, output = config_unknown, exit_code = 1\<rparr>"
    if "config_args input = sub # more" and "sub \<notin> {''set'', ''get'', ''list'', ''status''}"
    for sub more
    using that by (simp add: ConfigStrategy_execute_def Let_def)
  ultimately show ?thesis
    unfolding Let_def using config_args_set by (simp del: append.simps)
qed

theorem config_set_and_failures_witness:
  "fst (ConfigStrategy_execute echo_popen ''/config set foo bar''
          \<lparr>router = CommandRouter_new None, validator = load_hardcoded_defaults\<rparr> fresh_env)
     = Inr \<lparr>success = True,
            output = ''Isaac > Config set (C++): foo = bar'' @ config_set_note, exit_code = 0\<rparr> \<and>
   fst (ConfigStrategy_execute echo_popen ''/config set foo''
          \<lparr>router = CommandRouter_new None, validator = load_hardcoded_defaults\<rparr> fresh_env)
     = Inr \<lparr>success = False, output = config_unknown, exit_code = 1\<rparr> \<and>
   fst (ConfigStrategy_execute echo_popen ''/config frobnicate''
          \<lparr>router = CommandRouter_new None, validator = load_hardcoded_defaults\<rparr> fresh_env)
     = Inr \<lparr>success = False, output = config_unknown, exit_code = 1\<rparr>"
proof -
  let ?ctx = "\<lparr>router = CommandRouter_new None, validator = load_hardcoded_defaults\<rparr>"
  have a: "config_args ''/config set foo bar'' = [''set'', ''foo'', ''bar'']"
    and b: "config_args ''/config set foo'' = [''set'', ''foo'']"
    and c: "config_args ''/config frobnicate'' = [''frobnicate'']"
    by (simp_all add: config_args_def extract_all.simps extract_word_def isspace_def)
  show ?thesis
    using config_set_and_failures [of "''/config set foo bar''" echo_popen ?ctx fresh_env]
      config_set_and_failures [of "''/config set foo''" echo_popen ?ctx fresh_env]
      config_set_and_failures [of "''/config frobnicate''" echo_popen ?ctx fresh_env]
    unfolding Let_def a b c by simp
qed

end
